theory Spec2Isabelle
  imports Complex_Main
begin

section \<open>Data model\<close>

text \<open>
  The bill-processing worker of the repository (\<^verbatim>\<open>src/app/worker.py\<close>,
  \<^verbatim>\<open>src/app/scanner.py\<close>, \<^verbatim>\<open>src/app/schemas.py\<close>, \<^verbatim>\<open>src/app/models.py\<close>,
  \<^verbatim>\<open>src/app/database.py\<close>) as pure functions.

  Python \<^verbatim>\<open>float\<close> values and \<^verbatim>\<open>Float\<close> columns are modelled as \<open>real\<close>: rounding and
  NaN are outside the model. A UUID is its integer value, a \<^verbatim>\<open>datetime\<close> a number of
  seconds, \<^verbatim>\<open>bytes\<close> a list of characters. Nullable columns are options.
\<close>

type_synonym uuid = nat
type_synonym datetime = nat
type_synonym bytes = "char list"
type_synonym vector = "real list"

text \<open>
  A Python exception: its class name and its message; \<^verbatim>\<open>str(e)\<close> is the message.
\<close>

datatype exn = Exn string string

fun str :: "exn \<Rightarrow> string" where
  "str (Exn cls msg) = msg"

text \<open>\<^verbatim>\<open>schemas.ExtractedLineItem\<close> and \<^verbatim>\<open>schemas.ExtractedBillData\<close>.\<close>

record extracted_line_item =
  li_description :: string
  li_quantity :: real
  li_unit_price :: real
  li_total_price :: real
  li_vat_rate :: "real option"
  li_atk_code :: string

record extracted_bill_data =
  x_vendor_name :: string
  x_vendor_tax_number :: "string option"
  x_vendor_address :: "string option"
  x_bill_number :: "string option"
  x_bill_date :: "string option"
  x_bill_time :: "string option"
  x_subtotal :: "real option"
  x_vat_8_percent :: "real option"
  x_vat_18_percent :: "real option"
  x_total_vat :: "real option"
  x_total_amount :: real
  x_currency :: string
  x_line_items :: "extracted_line_item list"
  x_payment_method :: "string option"
  x_confidence_score :: real

text \<open>\<^verbatim>\<open>schemas.BillUploadMessage\<close>: the queue message, all fields strings.\<close>

record bill_upload_message =
  msg_bill_id :: string
  msg_company_id :: string
  msg_storage_path :: string
  msg_mime_type :: string
  msg_uploaded_at :: string

text \<open>
  \<^verbatim>\<open>models.Bill\<close>, the columns the worker reads or writes. The primary key \<^verbatim>\<open>id\<close> is
  \<open>bid\<close> here. The JSONB columns hold the dumped models themselves.
\<close>

record bill =
  bid :: uuid
  company_id :: uuid
  storage_path :: string
  vendor_name :: "string option"
  vendor_tax_number :: "string option"
  bill_number :: "string option"
  bill_date :: "datetime option"
  total_amount :: "real option"
  currency :: "string option"
  line_items :: "extracted_line_item list option"
  raw_extraction :: "extracted_bill_data option"
  visual_fingerprint :: "vector option"
  status :: string
  error_message :: "string option"
  is_duplicate :: "bool option"
  duplicate_of_id :: "uuid option"
  similarity_score :: "real option"
  processed_at :: "datetime option"

text \<open>The table \<^verbatim>\<open>bills\<close>: its rows, in storage order.\<close>

type_synonym bills = "bill list"

section \<open>Duplicate detection\<close>

text \<open>
  The dictionary \<^verbatim>\<open>_check_duplicate\<close> returns, with its three keys.
\<close>

record duplicate_info =
  dup_is_duplicate :: bool
  dup_duplicate_id :: "uuid option"
  dup_similarity :: real

text \<open>
  The \<^verbatim>\<open>where\<close> clause of the query in \<^verbatim>\<open>_check_duplicate\<close> (worker.py 190-195): same
  company, \<^verbatim>\<open>status == "completed"\<close>, \<^verbatim>\<open>is_duplicate == False\<close>, a fingerprint that is
  not null. A null \<^verbatim>\<open>is_duplicate\<close> does not satisfy the SQL comparison.
\<close>

definition is_candidate :: "uuid \<Rightarrow> bill \<Rightarrow> bool" where
  "is_candidate cid b \<longleftrightarrow>
     company_id b = cid \<and> status b = ''completed'' \<and> is_duplicate b = Some False
     \<and> visual_fingerprint b \<noteq> None"

text \<open>
  The selected columns: \<^verbatim>\<open>Bill.id\<close> and
  \<^verbatim>\<open>Bill.visual_fingerprint.cosine_distance(embedding)\<close>. The operator belongs to
  pgvector, not to this repository, so it is the parameter \<open>cd\<close>.
\<close>

definition distance_row :: "(vector \<Rightarrow> vector \<Rightarrow> real) \<Rightarrow> vector \<Rightarrow> bill \<Rightarrow> uuid \<times> real" where
  "distance_row cd embedding b = (bid b, cd (the (visual_fingerprint b)) embedding)"

text \<open>
  The whole query: filter, \<^verbatim>\<open>order_by("distance")\<close>, \<^verbatim>\<open>limit(1)\<close>. The sort is stable, so
  of several rows at the same distance the first in storage order is kept; the database
  may keep any of them.
\<close>

definition nearest_query :: "(vector \<Rightarrow> vector \<Rightarrow> real) \<Rightarrow> bills \<Rightarrow> uuid \<Rightarrow> vector \<Rightarrow> (uuid \<times> real) list" where
  "nearest_query cd rows cid embedding =
     take 1 (sort_key snd (map (distance_row cd embedding) (filter (is_candidate cid) rows)))"

text \<open>\<^verbatim>\<open>self.duplicate_threshold\<close> (worker.py 44).\<close>

definition duplicate_threshold :: real where
  "duplicate_threshold = 0.95"

definition not_duplicate :: duplicate_info where
  "not_duplicate = \<lparr>dup_is_duplicate = False, dup_duplicate_id = None, dup_similarity = 0\<rparr>"

text \<open>
  \<^verbatim>\<open>_check_duplicate\<close> (worker.py 162-217). \<open>search_raises\<close> is the exception of
  \<^verbatim>\<open>session.execute\<close>, if it raises one.
\<close>

definition check_duplicate ::
  "(vector \<Rightarrow> vector \<Rightarrow> real) \<Rightarrow> exn option \<Rightarrow> bills \<Rightarrow> uuid \<Rightarrow> vector \<Rightarrow> exn + duplicate_info" where
  "check_duplicate cd search_raises rows cid embedding =
     (case search_raises of
        Some e \<Rightarrow> Inl e
      | None \<Rightarrow>
          (case nearest_query cd rows cid embedding of
             [] \<Rightarrow> Inr not_duplicate
           | row # _ \<Rightarrow>
               (let distance = snd row;
                    similarity = 1 - distance
                in if similarity \<ge> duplicate_threshold
                   then Inr \<lparr>dup_is_duplicate = True, dup_duplicate_id = Some (fst row),
                             dup_similarity = similarity\<rparr>
                   else Inr not_duplicate)))"

section \<open>The environment\<close>

text \<open>
  A JSON value as \<^verbatim>\<open>json.loads\<close> returns it; an object is its list of members, with
  distinct keys as in a Python \<^verbatim>\<open>dict\<close>.
\<close>

datatype json =
  JNull | JBool bool | JNumber real | JString string | JArray "json list"
  | JObject "(string \<times> json) list"

text \<open>
  Everything outside the repository that one delivery touches: what each library or
  service call returns or raises. A call that can raise returns \<open>Inl\<close> of the exception;
  a database statement that can raise has an \<open>exn option\<close>, \<open>None\<close> when it succeeds.
  The three commits are those of worker.py lines 73, 137 and 143.
\<close>

record env =
  utf8_decode :: "bytes \<Rightarrow> exn + string"
  json_loads :: "string \<Rightarrow> exn + json"
  uuid_parse :: "string \<Rightarrow> exn + uuid"
  lookup_raises :: "exn option"
  commit_processing :: "exn option"
  download_as_bytes :: "string \<Rightarrow> exn + bytes"
  generate_content :: "bytes \<Rightarrow> string \<Rightarrow> exn + string option"
  model_validate_json :: "string \<Rightarrow> exn + extracted_bill_data"
  float_repr :: "real \<Rightarrow> string"
  embed_content :: "string \<Rightarrow> exn + vector list"
  cosine_dist :: "vector \<Rightarrow> vector \<Rightarrow> real"
  search_raises :: "exn option"
  strptime :: "string \<Rightarrow> string \<Rightarrow> datetime option"
  utcnow :: datetime
  commit_terminal :: "exn option"
  commit_failed :: "exn option"

section \<open>The scanner\<close>

text \<open>
  The \<^verbatim>\<open>try\<close> block of \<^verbatim>\<open>extract_from_image\<close> (scanner.py 85-131): the call to the
  model, then the parse of \<^verbatim>\<open>response.text\<close> when it is neither \<^verbatim>\<open>None\<close> nor empty.
\<close>

definition extract_from_image_try :: "env \<Rightarrow> bytes \<Rightarrow> string \<Rightarrow> exn + extracted_bill_data" where
  "extract_from_image_try env image_data mime_type =
     (case generate_content env image_data mime_type of
        Inl e \<Rightarrow> Inl e
      | Inr None \<Rightarrow> Inl (Exn ''ValueError'' ''Empty response from Gemini API'')
      | Inr (Some text) \<Rightarrow>
          (if text \<noteq> [] then model_validate_json env text
           else Inl (Exn ''ValueError'' ''Empty response from Gemini API'')))"

text \<open>The record of the \<^verbatim>\<open>except\<close> branch (scanner.py 135-141); the other fields default.\<close>

definition extraction_failed :: extracted_bill_data where
  "extraction_failed =
     \<lparr>x_vendor_name = ''Extraction Failed'', x_vendor_tax_number = None,
      x_vendor_address = None, x_bill_number = None, x_bill_date = None, x_bill_time = None,
      x_subtotal = None, x_vat_8_percent = None, x_vat_18_percent = None, x_total_vat = None,
      x_total_amount = 0, x_currency = ''EUR'', x_line_items = [], x_payment_method = None,
      x_confidence_score = 0\<rparr>"

definition extract_from_image :: "env \<Rightarrow> bytes \<Rightarrow> string \<Rightarrow> extracted_bill_data" where
  "extract_from_image env image_data mime_type =
     (case extract_from_image_try env image_data mime_type of
        Inr extracted \<Rightarrow> extracted
      | Inl e \<Rightarrow> extraction_failed)"

text \<open>\<^verbatim>\<open>x or 'N/A'\<close>: \<^verbatim>\<open>None\<close> and the empty string both give \<^verbatim>\<open>'N/A'\<close>.\<close>

definition or_na :: "string option \<Rightarrow> string" where
  "or_na x = (case x of None \<Rightarrow> ''N/A'' | Some s \<Rightarrow> if s = [] then ''N/A'' else s)"

fun join :: "string \<Rightarrow> string list \<Rightarrow> string" where
  "join sep [] = []"
| "join sep [p] = p"
| "join sep (p # q # ps) = p @ sep @ join sep (q # ps)"

text \<open>\<^verbatim>\<open>generate_text_for_embedding\<close> (scanner.py 143-168).\<close>

definition generate_text_for_embedding :: "env \<Rightarrow> extracted_bill_data \<Rightarrow> string" where
  "generate_text_for_embedding env extracted_data =
     (let parts =
            [''Vendor: '' @ x_vendor_name extracted_data,
             ''NUI: '' @ or_na (x_vendor_tax_number extracted_data),
             ''Bill: '' @ or_na (x_bill_number extracted_data),
             ''Date: '' @ or_na (x_bill_date extracted_data),
             ''Total: '' @ float_repr env (x_total_amount extracted_data) @ '' ''
               @ x_currency extracted_data]
            @ map (\<lambda>item. ''Item: '' @ li_description item @ '' x''
                     @ float_repr env (li_quantity item) @ '' = ''
                     @ float_repr env (li_total_price item))
                (x_line_items extracted_data)
      in join '' | '' parts)"

text \<open>
  \<^verbatim>\<open>generate_embedding\<close> (scanner.py 170-195): the first embedding, or 768 zeros when the
  call raises or returns no embedding.
\<close>

definition generate_embedding :: "env \<Rightarrow> string \<Rightarrow> vector" where
  "generate_embedding env text =
     (case embed_content env text of
        Inr (values # _) \<Rightarrow> values
      | Inr [] \<Rightarrow> replicate 768 0
      | Inl e \<Rightarrow> replicate 768 0)"

section \<open>The worker\<close>

text \<open>\<^verbatim>\<open>_download_from_gcs\<close> (worker.py 219-222).\<close>

definition download_from_gcs :: "env \<Rightarrow> string \<Rightarrow> exn + bytes" where
  "download_from_gcs env path = download_as_bytes env path"

text \<open>\<^verbatim>\<open>_parse_date\<close> (worker.py 224-239): the first format that parses, else \<^verbatim>\<open>None\<close>.\<close>

fun try_formats :: "(string \<Rightarrow> string \<Rightarrow> datetime option) \<Rightarrow> string \<Rightarrow> string list \<Rightarrow> datetime option" where
  "try_formats parse date_str [] = None"
| "try_formats parse date_str (fmt # fmts) =
     (case parse date_str fmt of
        Some d \<Rightarrow> Some d
      | None \<Rightarrow> try_formats parse date_str fmts)"

definition parse_date :: "env \<Rightarrow> string \<Rightarrow> datetime option" where
  "parse_date env date_str =
     try_formats (strptime env) date_str [''%Y-%m-%d'', ''%d/%m/%Y'', ''%d.%m.%Y'', ''%Y/%m/%d'']"

text \<open>
  \<^verbatim>\<open>Result.scalar_one_or_none\<close>: no row, the one row, or \<^verbatim>\<open>MultipleResultsFound\<close>.
\<close>

definition scalar_one_or_none :: "'a list \<Rightarrow> exn + 'a option" where
  "scalar_one_or_none rs =
     (case rs of
        [] \<Rightarrow> Inr None
      | [r] \<Rightarrow> Inr (Some r)
      | _ \<Rightarrow> Inl (Exn ''MultipleResultsFound''
                   ''Multiple rows were found when one or none was required''))"

text \<open>\<^verbatim>\<open>_get_bill\<close> (worker.py 147-160): the row with this id in this company.\<close>

definition get_bill :: "env \<Rightarrow> bills \<Rightarrow> uuid \<Rightarrow> uuid \<Rightarrow> exn + bill option" where
  "get_bill env rows bill_id cid =
     (case lookup_raises env of
        Some e \<Rightarrow> Inl e
      | None \<Rightarrow> scalar_one_or_none (filter (\<lambda>b. bid b = bill_id \<and> company_id b = cid) rows))"

text \<open>
  A commit that succeeds writes the loaded object over its row (the row with its primary
  key). A commit that raises writes nothing, and the object keeps its pending changes.
\<close>

definition persist :: "bill \<Rightarrow> bills \<Rightarrow> bills" where
  "persist obj rows = map (\<lambda>r. if bid r = bid obj then obj else r) rows"

text \<open>The two branches of step 5 (worker.py 97-134).\<close>

definition mark_duplicate :: "duplicate_info \<Rightarrow> bill \<Rightarrow> bill" where
  "mark_duplicate info b =
     b\<lparr>status := ''duplicate'', is_duplicate := Some True,
       duplicate_of_id := dup_duplicate_id info,
       similarity_score := Some (dup_similarity info)\<rparr>"

definition save_extracted :: "env \<Rightarrow> extracted_bill_data \<Rightarrow> vector \<Rightarrow> bill \<Rightarrow> bill" where
  "save_extracted env extracted_data embedding b =
     (let b1 = b\<lparr>status := ''completed'',
                 vendor_name := Some (x_vendor_name extracted_data),
                 vendor_tax_number := x_vendor_tax_number extracted_data,
                 bill_number := x_bill_number extracted_data\<rparr>;
          b2 = (case x_bill_date extracted_data of
                  None \<Rightarrow> b1
                | Some d \<Rightarrow> if d = [] then b1 else b1\<lparr>bill_date := parse_date env d\<rparr>)
      in b2\<lparr>total_amount := Some (x_total_amount extracted_data),
            currency := Some (x_currency extracted_data),
            line_items := Some (x_line_items extracted_data),
            raw_extraction := Some extracted_data,
            visual_fingerprint := Some embedding\<rparr>)"

text \<open>
  The \<^verbatim>\<open>try\<close> block of \<^verbatim>\<open>process_bill_message\<close> from the loaded record on (worker.py
  71-137). It ends with the committed table, or with an exception together with the
  object and the committed table at that moment, which is what the handler sees.
\<close>

definition pipeline ::
  "env \<Rightarrow> bill_upload_message \<Rightarrow> uuid \<Rightarrow> bill \<Rightarrow> bills \<Rightarrow> (exn \<times> bill \<times> bills) + bills" where
  "pipeline env message_data cid bill0 rows0 =
     (let bill = bill0\<lparr>status := ''processing''\<rparr> in
      case commit_processing env of
        Some e \<Rightarrow> Inl (e, bill, rows0)
      | None \<Rightarrow>
          (let rows = persist bill rows0 in
           case download_from_gcs env (msg_storage_path message_data) of
             Inl e \<Rightarrow> Inl (e, bill, rows)
           | Inr image_data \<Rightarrow>
               (let extracted_data =
                      extract_from_image env image_data (msg_mime_type message_data);
                    text_for_embedding = generate_text_for_embedding env extracted_data;
                    embedding = generate_embedding env text_for_embedding
                in case check_duplicate (cosine_dist env) (search_raises env) rows cid embedding of
                     Inl e \<Rightarrow> Inl (e, bill, rows)
                   | Inr duplicate_info \<Rightarrow>
                       (let bill' =
                              (if dup_is_duplicate duplicate_info
                               then mark_duplicate duplicate_info bill
                               else save_extracted env extracted_data embedding bill);
                            bill'' = bill'\<lparr>processed_at := Some (utcnow env)\<rparr>
                        in case commit_terminal env of
                             Some e \<Rightarrow> Inl (e, bill'', rows)
                           | None \<Rightarrow> Inr (persist bill'' rows)))))"

text \<open>
  The \<^verbatim>\<open>except\<close> branch (worker.py 139-145) with a loaded record: mark it failed, commit,
  re-raise. When that commit raises, its exception leaves the handler instead.
\<close>

definition mark_failed :: "env \<Rightarrow> exn \<Rightarrow> bill \<Rightarrow> bills \<Rightarrow> exn option \<times> bills" where
  "mark_failed env e bill rows =
     (let bill' = bill\<lparr>status := ''failed'', error_message := Some (str e)\<rparr> in
      case commit_failed env of
        Some e' \<Rightarrow> (Some e', rows)
      | None \<Rightarrow> (Some e, persist bill' rows))"

text \<open>
  The body of \<^verbatim>\<open>async with db.get_session()\<close> (worker.py 63-145). The result is the
  exception that leaves it, if any, and the committed table. When \<^verbatim>\<open>_get_bill\<close> itself
  raises, the handler reads the unbound local \<^verbatim>\<open>bill\<close> and raises
  \<^verbatim>\<open>UnboundLocalError\<close>.

  \<^verbatim>\<open>get_session\<close> (database.py 95-114) commits once more when the body returns, with
  nothing pending by then, and rolls back and re-raises when the body raises: neither
  changes the committed table or the exception.
\<close>

definition unbound_local_error :: exn where
  "unbound_local_error =
     Exn ''UnboundLocalError''
       (''cannot access local variable '' @ [CHR 0x27] @ ''bill'' @ [CHR 0x27]
        @ '' where it is not associated with a value'')"

definition session_body ::
  "env \<Rightarrow> bill_upload_message \<Rightarrow> uuid \<Rightarrow> uuid \<Rightarrow> bills \<Rightarrow> exn option \<times> bills" where
  "session_body env message_data bill_id cid rows =
     (case get_bill env rows bill_id cid of
        Inl e \<Rightarrow> (Some unbound_local_error, rows)
      | Inr None \<Rightarrow> (None, rows)
      | Inr (Some bill0) \<Rightarrow>
          (case pipeline env message_data cid bill0 rows of
             Inr rows' \<Rightarrow> (None, rows')
           | Inl (e, bill, rows') \<Rightarrow> mark_failed env e bill rows'))"

text \<open>
  \<^verbatim>\<open>process_bill_message\<close> (worker.py 46-145). The two \<^verbatim>\<open>UUID(...)\<close> conversions come
  before the \<^verbatim>\<open>try\<close>: a \<^verbatim>\<open>ValueError\<close> there leaves the function at once.
\<close>

definition process_bill_message ::
  "env \<Rightarrow> bill_upload_message \<Rightarrow> bills \<Rightarrow> exn option \<times> bills" where
  "process_bill_message env message_data rows =
     (case uuid_parse env (msg_bill_id message_data) of
        Inl e \<Rightarrow> (Some e, rows)
      | Inr bill_id \<Rightarrow>
          (case uuid_parse env (msg_company_id message_data) of
             Inl e \<Rightarrow> (Some e, rows)
           | Inr cid \<Rightarrow> session_body env message_data bill_id cid rows))"

section \<open>The delivery adapter\<close>

text \<open>
  \<^verbatim>\<open>BillUploadMessage(**data)\<close>: \<^verbatim>\<open>data\<close> has to be a \<^verbatim>\<open>dict\<close>, and each of the five
  fields has to be present with a string value; other keys are ignored.
\<close>

definition str_field :: "(string \<times> json) list \<Rightarrow> string \<Rightarrow> string option" where
  "str_field d k = (case map_of d k of Some (JString s) \<Rightarrow> Some s | _ \<Rightarrow> None)"

definition BillUploadMessage :: "json \<Rightarrow> exn + bill_upload_message" where
  "BillUploadMessage data =
     (case data of
        JObject d \<Rightarrow>
          (case (str_field d ''bill_id'', str_field d ''company_id'',
                 str_field d ''storage_path'', str_field d ''mime_type'',
                 str_field d ''uploaded_at'') of
             (Some b, Some c, Some p, Some m, Some u) \<Rightarrow>
               Inr \<lparr>msg_bill_id = b, msg_company_id = c, msg_storage_path = p,
                    msg_mime_type = m, msg_uploaded_at = u\<rparr>
           | _ \<Rightarrow> Inl (Exn ''ValidationError'' ''validation errors for BillUploadMessage''))
      | _ \<Rightarrow> Inl (Exn ''TypeError'' ''argument after ** must be a mapping''))"

text \<open>
  The \<^verbatim>\<open>try\<close> block of \<^verbatim>\<open>message_callback\<close> up to the parsed message (worker.py 248-249).
\<close>

definition decode_message :: "env \<Rightarrow> bytes \<Rightarrow> exn + bill_upload_message" where
  "decode_message env payload =
     (case utf8_decode env payload of
        Inl e \<Rightarrow> Inl e
      | Inr s \<Rightarrow>
          (case json_loads env s of
             Inl e \<Rightarrow> Inl e
           | Inr data \<Rightarrow> BillUploadMessage data))"

datatype delivery = Ack | Nack

text \<open>
  \<^verbatim>\<open>message_callback\<close> (worker.py 241-263): \<^verbatim>\<open>ack\<close> at the end of the \<^verbatim>\<open>try\<close> block,
  \<^verbatim>\<open>nack\<close> in the one \<^verbatim>\<open>except Exception\<close> branch.
\<close>

definition message_callback :: "env \<Rightarrow> bytes \<Rightarrow> bills \<Rightarrow> delivery \<times> bills" where
  "message_callback env payload rows =
     (case decode_message env payload of
        Inl e \<Rightarrow> (Nack, rows)
      | Inr message_data \<Rightarrow>
          (case process_bill_message env message_data rows of
             (None, rows') \<Rightarrow> (Ack, rows')
           | (Some e, rows') \<Rightarrow> (Nack, rows')))"

section \<open>Names for the steps of one run\<close>

text \<open>
  The values \<open>pipeline\<close> computes on its way: the record once it is set to
  processing, the extraction and the embedding of the downloaded image, and the record as
  step 5 leaves it for the last commit.
\<close>

definition processing_bill :: "bill \<Rightarrow> bill" where
  "processing_bill bill0 = bill0\<lparr>status := ''processing''\<rparr>"

definition job_extraction :: "env \<Rightarrow> bill_upload_message \<Rightarrow> bytes \<Rightarrow> extracted_bill_data" where
  "job_extraction env message_data image_data =
     extract_from_image env image_data (msg_mime_type message_data)"

definition job_embedding :: "env \<Rightarrow> bill_upload_message \<Rightarrow> bytes \<Rightarrow> vector" where
  "job_embedding env message_data image_data =
     generate_embedding env
       (generate_text_for_embedding env (job_extraction env message_data image_data))"

definition terminal_bill :: "env \<Rightarrow> bill_upload_message \<Rightarrow> bytes \<Rightarrow> duplicate_info \<Rightarrow> bill \<Rightarrow> bill" where
  "terminal_bill env message_data image_data info bill0 =
     (if dup_is_duplicate info then mark_duplicate info (processing_bill bill0)
      else save_extracted env (job_extraction env message_data image_data)
             (job_embedding env message_data image_data) (processing_bill bill0))
     \<lparr>processed_at := Some (utcnow env)\<rparr>"

text \<open>
  The table with the status of the rows of one id replaced: the same stored data, seen
  before or after the record reached some status.
\<close>

definition with_status :: "string \<Rightarrow> uuid \<Rightarrow> bills \<Rightarrow> bills" where
  "with_status s i rows = map (\<lambda>r. if bid r = i then r\<lparr>status := s\<rparr> else r) rows"

section \<open>The specification's detector\<close>


text \<open>
  The convention of the specification for the zero vector: the similarity of a non-zero
  fingerprint with the all-zero vector of 768 entries is 0, that is, their distance is 1.
\<close>

definition zero_vector_convention :: "(vector \<Rightarrow> vector \<Rightarrow> real) \<Rightarrow> bool" where
  "zero_vector_convention cd \<longleftrightarrow>
     (\<forall>fp. fp \<noteq> replicate 768 0 \<longrightarrow> cd fp (replicate 768 0) = 1)"

section \<open>Concrete inputs\<close>

text \<open>
  A distance to run the examples with: the cosine distance of two vectors,
  \<open>1 - similarity\<close>, where the similarity with a vector of norm 0 is taken to be 0. The
  theorems below do not depend on it: they hold for any distance function.
\<close>

definition dot :: "vector \<Rightarrow> vector \<Rightarrow> real" where
  "dot u v = sum_list (map2 (*) u v)"

definition cosine_distance :: "vector \<Rightarrow> vector \<Rightarrow> real" where
  "cosine_distance u v =
     (if dot u u = 0 \<or> dot v v = 0 then 1 else 1 - dot u v / sqrt (dot u u * dot v v))"

text \<open>A row that is a candidate: completed, not a duplicate, with a fingerprint.\<close>

definition completed_bill :: "uuid \<Rightarrow> uuid \<Rightarrow> vector \<Rightarrow> bill" where
  "completed_bill i c fp =
     \<lparr>bid = i, company_id = c, storage_path = ''bills/x.jpg'', vendor_name = Some ''ShopCo'',
      vendor_tax_number = None, bill_number = None, bill_date = None,
      total_amount = Some 25, currency = Some ''EUR'', line_items = Some [],
      raw_extraction = None, visual_fingerprint = Some fp, status = ''completed'',
      error_message = None, is_duplicate = Some False, duplicate_of_id = None,
      similarity_score = None, processed_at = Some 1\<rparr>"

text \<open>A row as the upload endpoint creates it: pending, nothing extracted.\<close>

definition pending_bill :: "uuid \<Rightarrow> uuid \<Rightarrow> bill" where
  "pending_bill i c =
     \<lparr>bid = i, company_id = c, storage_path = ''bills/x.jpg'', vendor_name = None,
      vendor_tax_number = None, bill_number = None, bill_date = None,
      total_amount = None, currency = Some ''EUR'', line_items = None,
      raw_extraction = None, visual_fingerprint = None, status = ''pending'',
      error_message = None, is_duplicate = Some False, duplicate_of_id = None,
      similarity_score = None, processed_at = None\<rparr>"

text \<open>
  The identifiers of two bills and two companies, a job for a bill of a company as a
  message and as the JSON value of its payload, and the payloads \<^verbatim>\<open>json.loads\<close>
  accepts in the examples.
\<close>

definition uuid_table :: "(string \<times> uuid) list" where
  "uuid_table =
     [(''00000000-0000-0000-0000-000000000001'', 1),
      (''00000000-0000-0000-0000-000000000002'', 2),
      (''00000000-0000-0000-0000-000000000064'', 100),
      (''00000000-0000-0000-0000-0000000000c8'', 200)]"

definition job :: "string \<Rightarrow> string \<Rightarrow> bill_upload_message" where
  "job b c =
     \<lparr>msg_bill_id = b, msg_company_id = c, msg_storage_path = ''bills/x.jpg'',
      msg_mime_type = ''image/jpeg'', msg_uploaded_at = ''2026-01-05T10:00:00''\<rparr>"

definition job_json :: "string \<Rightarrow> string \<Rightarrow> json" where
  "job_json b c =
     JObject [(''bill_id'', JString b), (''company_id'', JString c),
              (''storage_path'', JString ''bills/x.jpg''), (''mime_type'', JString ''image/jpeg''),
              (''uploaded_at'', JString ''2026-01-05T10:00:00'')]"

definition payload_table :: "(string \<times> json) list" where
  "payload_table =
     [(''job: bill 1 of company 100'',
         job_json ''00000000-0000-0000-0000-000000000001'' ''00000000-0000-0000-0000-000000000064''),
      (''job: bill 1 of company 200'',
         job_json ''00000000-0000-0000-0000-000000000001'' ''00000000-0000-0000-0000-0000000000c8''),
      (''job without company_id'',
         JObject [(''bill_id'', JString ''00000000-0000-0000-0000-000000000001'')])]"

definition job_1 :: bill_upload_message where
  "job_1 = job ''00000000-0000-0000-0000-000000000001'' ''00000000-0000-0000-0000-000000000064''"

definition job_2 :: bill_upload_message where
  "job_2 = job ''00000000-0000-0000-0000-000000000002'' ''00000000-0000-0000-0000-000000000064''"

text \<open>
  An extraction of the receipt of Scenario A, and an environment in which every call
  succeeds: the model returns that extraction and the embedding service the vector
  \<open>[1, 0]\<close>.
\<close>

definition shopco :: extracted_bill_data where
  "shopco =
     \<lparr>x_vendor_name = ''ShopCo'', x_vendor_tax_number = Some ''810000001'',
      x_vendor_address = None, x_bill_number = Some ''Market-001'',
      x_bill_date = Some ''2026-01-05'', x_bill_time = None,
      x_subtotal = None, x_vat_8_percent = None, x_vat_18_percent = None, x_total_vat = None,
      x_total_amount = 25, x_currency = ''EUR'', x_line_items = [], x_payment_method = None,
      x_confidence_score = 1\<rparr>"

definition env_ok :: env where
  "env_ok =
     \<lparr>utf8_decode = Inr,
      json_loads = (\<lambda>s. case map_of payload_table s of
                          Some j \<Rightarrow> Inr j
                        | None \<Rightarrow> Inl (Exn ''JSONDecodeError'' ''Expecting value: line 1 column 1 (char 0)'')),
      uuid_parse = (\<lambda>s. case map_of uuid_table s of
                          Some u \<Rightarrow> Inr u
                        | None \<Rightarrow> Inl (Exn ''ValueError'' ''badly formed hexadecimal UUID string'')),
      lookup_raises = None, commit_processing = None,
      download_as_bytes = (\<lambda>p. Inr ''image bytes''),
      generate_content = (\<lambda>i m. Inr (Some ''receipt of ShopCo'')),
      model_validate_json = (\<lambda>t. Inr shopco),
      float_repr = (\<lambda>x. if x = 0 then ''0.0'' else ''25.0''),
      embed_content = (\<lambda>t. Inr [[1, 0]]),
      cosine_dist = cosine_distance, search_raises = None,
      strptime = (\<lambda>s f. if f = ''%Y-%m-%d'' then Some 1767571200 else None), utcnow = 1000,
      commit_terminal = None, commit_failed = None\<rparr>"

text \<open>
  The same environment with one service failing: a missing blob, a missing blob and a
  database that refuses the handler's commit, an embedding service that is down, an
  extraction service that times out; and one whose embedding service returns another
  vector.
\<close>

definition env_blob_missing :: env where
  "env_blob_missing =
     env_ok\<lparr>download_as_bytes := (\<lambda>p. Inl (Exn ''NotFound'' ''404 No such object: bills/x.jpg''))\<rparr>"


definition env_embedding_down :: env where
  "env_embedding_down =
     env_ok\<lparr>embed_content := (\<lambda>t. Inl (Exn ''ServerError'' ''503 embedding service unavailable''))\<rparr>"

definition env_extraction_timeout :: env where
  "env_extraction_timeout =
     env_ok\<lparr>generate_content := (\<lambda>i m. Inl (Exn ''DeadlineExceeded'' ''504 Deadline Exceeded''))\<rparr>"


text \<open>
  Rows the examples end with: bill 2 marked a duplicate of bill 1, a bill completed with
  the extraction above, a bill completed with the fallback record.
\<close>

definition duplicate_of_bill_1 :: bill where
  "duplicate_of_bill_1 =
     (pending_bill 2 100)\<lparr>status := ''duplicate'', is_duplicate := Some True,
        duplicate_of_id := Some 1, similarity_score := Some 1, processed_at := Some 1000\<rparr>"


definition fallback_bill :: "uuid \<Rightarrow> bill" where
  "fallback_bill i =
     (pending_bill i 100)\<lparr>status := ''completed'', vendor_name := Some ''Extraction Failed'',
        total_amount := Some 0, currency := Some ''EUR'', line_items := Some [],
        raw_extraction := Some extraction_failed, visual_fingerprint := Some [1, 0],
        processed_at := Some 1000\<rparr>"

section \<open>Lemmas about the duplicate search\<close>

lemma nearest_query_cases:
  "nearest_query cd rows cid v = [] \<and> filter (is_candidate cid) rows = []
   \<or> (\<exists>b \<in> set rows. is_candidate cid b
        \<and> nearest_query cd rows cid v = [distance_row cd v b]
        \<and> (\<forall>c \<in> set rows. is_candidate cid c \<longrightarrow>
              cd (the (visual_fingerprint b)) v \<le> cd (the (visual_fingerprint c)) v))"
proof (cases "filter (is_candidate cid) rows")
  case Nil
  then show ?thesis by (simp add: nearest_query_def)
next
  case (Cons a as)
  define rs where "rs = map (distance_row cd v) (filter (is_candidate cid) rows)"
  define ss where "ss = sort_key snd rs"
  have ne: "ss \<noteq> []"
    using Cons by (auto simp: ss_def rs_def dest: arg_cong[where f = length])
  then obtain r rest where ss: "ss = r # rest" by (cases ss) auto
  have "r \<in> set ss" by (simp add: ss)
  then have "r \<in> set rs" by (simp add: ss_def)
  then obtain b where b: "b \<in> set rows" "is_candidate cid b" "r = distance_row cd v b"
    by (auto simp: rs_def)
  have sorted: "sorted (map snd ss)" by (simp add: ss_def)
  have least: "snd r \<le> snd s" if "s \<in> set rs" for s
  proof -
    from that have "s \<in> set ss" by (simp add: ss_def)
    with sorted show ?thesis by (auto simp: ss)
  qed
  have "cd (the (visual_fingerprint b)) v \<le> cd (the (visual_fingerprint c)) v"
    if "c \<in> set rows" "is_candidate cid c" for c
  proof -
    have "distance_row cd v c \<in> set rs" using that by (simp add: rs_def)
    from least[OF this] show ?thesis by (simp add: b distance_row_def)
  qed
  moreover have "nearest_query cd rows cid v = [distance_row cd v b]"
    using ss b by (simp add: nearest_query_def ss_def[symmetric] rs_def[symmetric])
  ultimately show ?thesis using b by blast
qed

text \<open>
  Whatever the search returns, it returns for a candidate row: the row at the least
  distance, with the similarity \<open>1 - distance\<close>, and only at or above the threshold.
\<close>

lemma check_duplicate_cases:
  "check_duplicate cd None rows cid v = Inr not_duplicate
   \<or> (\<exists>b \<in> set rows. is_candidate cid b
        \<and> (\<forall>c \<in> set rows. is_candidate cid c \<longrightarrow>
              cd (the (visual_fingerprint b)) v \<le> cd (the (visual_fingerprint c)) v)
        \<and> 1 - cd (the (visual_fingerprint b)) v \<ge> duplicate_threshold
        \<and> check_duplicate cd None rows cid v =
            Inr \<lparr>dup_is_duplicate = True, dup_duplicate_id = Some (bid b),
                 dup_similarity = 1 - cd (the (visual_fingerprint b)) v\<rparr>)"
proof -
  consider "nearest_query cd rows cid v = []"
    | b where "b \<in> set rows" "is_candidate cid b"
        "nearest_query cd rows cid v = [distance_row cd v b]"
        "\<forall>c \<in> set rows. is_candidate cid c \<longrightarrow>
           cd (the (visual_fingerprint b)) v \<le> cd (the (visual_fingerprint c)) v"
    using nearest_query_cases[of cd rows cid v] by blast
  then show ?thesis
  proof cases
    case 1
    then show ?thesis by (simp add: check_duplicate_def)
  next
    case (2 b)
    show ?thesis
    proof (cases "1 - cd (the (visual_fingerprint b)) v \<ge> duplicate_threshold")
      case True
      with 2 have "check_duplicate cd None rows cid v =
            Inr \<lparr>dup_is_duplicate = True, dup_duplicate_id = Some (bid b),
                 dup_similarity = 1 - cd (the (visual_fingerprint b)) v\<rparr>"
        by (simp add: check_duplicate_def distance_row_def)
      with 2 True show ?thesis by blast
    next
      case False
      with 2 show ?thesis by (simp add: check_duplicate_def distance_row_def)
    qed
  qed
qed

lemma check_duplicate_total:
  "\<exists>r. check_duplicate cd None rows cid v = Inr r"
  by (simp add: check_duplicate_def Let_def split: list.split)

lemma check_duplicate_raises:
  "check_duplicate cd (Some e) rows cid v = Inl e"
  by (simp add: check_duplicate_def)



lemma distinct_bid_eq:
  "distinct (map bid rows) \<Longrightarrow> b \<in> set rows \<Longrightarrow> c \<in> set rows \<Longrightarrow> bid b = bid c \<Longrightarrow> b = c"
  by (simp add: distinct_map inj_on_def)

lemma dot_replicate_zero: "dot (replicate n 0) (replicate n 0) = 0"
  by (induction n) (simp_all add: dot_def)

lemma cosine_distance_zero: "cosine_distance u (replicate n 0) = 1"
  by (simp add: cosine_distance_def dot_replicate_zero)


section \<open>Lemmas about one run\<close>

lemma scalar_one_or_none_Some:
  "scalar_one_or_none rs = Inr (Some r) \<longleftrightarrow> rs = [r]"
  by (auto simp: scalar_one_or_none_def split: list.splits)

lemma scalar_one_or_none_None:
  "scalar_one_or_none rs = Inr None \<longleftrightarrow> rs = []"
  by (auto simp: scalar_one_or_none_def split: list.splits)

lemma get_bill_found:
  assumes "get_bill env rows bill_id cid = Inr (Some b)"
  shows "lookup_raises env = None" "b \<in> set rows" "bid b = bill_id" "company_id b = cid"
proof -
  from assms show l: "lookup_raises env = None"
    by (cases "lookup_raises env") (auto simp: get_bill_def)
  from assms l have "filter (\<lambda>b. bid b = bill_id \<and> company_id b = cid) rows = [b]"
    by (simp add: get_bill_def scalar_one_or_none_Some)
  then have "b \<in> set (filter (\<lambda>b. bid b = bill_id \<and> company_id b = cid) rows)" by simp
  then show "b \<in> set rows" "bid b = bill_id" "company_id b = cid" by auto
qed

lemma get_bill_missing:
  "lookup_raises env = None \<Longrightarrow> \<not> (\<exists>b \<in> set rows. bid b = bill_id \<and> company_id b = cid)
   \<Longrightarrow> get_bill env rows bill_id cid = Inr None"
  by (simp add: get_bill_def scalar_one_or_none_None filter_empty_conv)

lemma get_bill_unique:
  assumes "get_bill env rows bill_id cid = Inr (Some b)" "b' \<in> set rows" "bid b' = bill_id"
    "company_id b' = cid"
  shows "b' = b"
proof -
  have l: "lookup_raises env = None" using get_bill_found(1)[OF assms(1)] .
  from assms(1) l have "filter (\<lambda>b. bid b = bill_id \<and> company_id b = cid) rows = [b]"
    by (simp add: get_bill_def scalar_one_or_none_Some)
  moreover have "b' \<in> set (filter (\<lambda>b. bid b = bill_id \<and> company_id b = cid) rows)"
    using assms by simp
  ultimately show ?thesis by simp
qed

lemma persist_member:
  "b \<in> set (persist obj rows) \<Longrightarrow> bid b = bid obj \<Longrightarrow> b = obj"
  by (auto simp: persist_def split: if_splits)

lemma persist_other:
  "b \<in> set (persist obj rows) \<Longrightarrow> bid b \<noteq> bid obj \<Longrightarrow> b \<in> set rows"
  by (auto simp: persist_def split: if_splits)

lemma persist_present:
  "b \<in> set rows \<Longrightarrow> bid b = bid obj \<Longrightarrow> obj \<in> set (persist obj rows)"
  by (force simp: persist_def)

lemma persist_persist:
  "bid obj' = bid obj \<Longrightarrow> persist obj' (persist obj rows) = persist obj' rows"
  by (simp add: persist_def)

lemma get_bill_persist:
  assumes "get_bill env (persist obj rows) bill_id cid = Inr (Some b)" "bid obj = bill_id"
  shows "b = obj"
  using get_bill_found[OF assms(1)] assms(2) by (auto intro: persist_member)

lemma session_body_found:
  "get_bill env rows bill_id cid = Inr (Some bill0) \<Longrightarrow>
   session_body env message_data bill_id cid rows =
     (case pipeline env message_data cid bill0 rows of
        Inr rows' \<Rightarrow> (None, rows')
      | Inl (e, bill, rows') \<Rightarrow> mark_failed env e bill rows')"
  by (simp add: session_body_def)

lemma process_found:
  "uuid_parse env (msg_bill_id message_data) = Inr bill_id \<Longrightarrow>
   uuid_parse env (msg_company_id message_data) = Inr cid \<Longrightarrow>
   get_bill env rows bill_id cid = Inr (Some bill0) \<Longrightarrow>
   process_bill_message env message_data rows =
     (case pipeline env message_data cid bill0 rows of
        Inr rows' \<Rightarrow> (None, rows')
      | Inl (e, bill, rows') \<Rightarrow> mark_failed env e bill rows')"
  by (simp add: process_bill_message_def session_body_found)

text \<open>
  The \<^verbatim>\<open>try\<close> block step by step, in the names above.
\<close>

lemma pipeline_unfold:
  "pipeline env message_data cid bill0 rows =
     (case commit_processing env of
        Some e \<Rightarrow> Inl (e, processing_bill bill0, rows)
      | None \<Rightarrow>
          (case download_from_gcs env (msg_storage_path message_data) of
             Inl e \<Rightarrow> Inl (e, processing_bill bill0, persist (processing_bill bill0) rows)
           | Inr image_data \<Rightarrow>
               (case check_duplicate (cosine_dist env) (search_raises env)
                       (persist (processing_bill bill0) rows) cid
                       (job_embedding env message_data image_data) of
                  Inl e \<Rightarrow> Inl (e, processing_bill bill0, persist (processing_bill bill0) rows)
                | Inr info \<Rightarrow>
                    (case commit_terminal env of
                       Some e \<Rightarrow> Inl (e, terminal_bill env message_data image_data info bill0,
                                       persist (processing_bill bill0) rows)
                     | None \<Rightarrow> Inr (persist (terminal_bill env message_data image_data info bill0)
                                       (persist (processing_bill bill0) rows))))))"
  by (simp add: pipeline_def Let_def processing_bill_def job_extraction_def job_embedding_def
        terminal_bill_def split: option.split sum.split)

lemma bid_processing_bill [simp]: "bid (processing_bill b) = bid b"
  by (simp add: processing_bill_def)

lemma bid_terminal_bill [simp]: "bid (terminal_bill env m i info b) = bid b"
  by (simp add: terminal_bill_def mark_duplicate_def save_extracted_def Let_def
        split: option.split)


lemma pipeline_raises_state:
  assumes "pipeline env message_data cid bill0 rows = Inl (e, bill, rows')"
  shows "bid bill = bid bill0" "rows' = rows \<or> rows' = persist (processing_bill bill0) rows"
  using assms unfolding pipeline_unfold
  by (auto split: option.splits sum.splits)

lemma pipeline_returns:
  assumes "pipeline env message_data cid bill0 rows = Inr rows'"
  shows "\<exists>image_data info.
           commit_processing env = None
           \<and> download_from_gcs env (msg_storage_path message_data) = Inr image_data
           \<and> check_duplicate (cosine_dist env) (search_raises env)
                (persist (processing_bill bill0) rows) cid
                (job_embedding env message_data image_data) = Inr info
           \<and> commit_terminal env = None
           \<and> rows' = persist (terminal_bill env message_data image_data info bill0) rows"
  using assms unfolding pipeline_unfold
  by (auto simp: persist_persist split: option.splits sum.splits)

lemma terminal_bill_duplicate:
  assumes "status (terminal_bill env message_data image_data info bill0) = ''duplicate''"
  shows "terminal_bill env message_data image_data info bill0 =
           bill0\<lparr>status := ''duplicate'', is_duplicate := Some True,
                 duplicate_of_id := dup_duplicate_id info,
                 similarity_score := Some (dup_similarity info),
                 processed_at := Some (utcnow env)\<rparr>"
proof (cases "dup_is_duplicate info")
  case True
  then show ?thesis
    by (simp add: terminal_bill_def mark_duplicate_def processing_bill_def)
next
  case False
  then have "status (terminal_bill env message_data image_data info bill0) = ''completed''"
    by (simp add: terminal_bill_def save_extracted_def Let_def split: option.split)
  with assms show ?thesis by simp
qed

lemma terminal_bill_status:
  "status (terminal_bill env message_data image_data info bill0)
   = (if dup_is_duplicate info then ''duplicate'' else ''completed'')"
  by (simp add: terminal_bill_def mark_duplicate_def save_extracted_def Let_def
        split: option.split)

text \<open>What a run over a record that was found leaves in the table.\<close>

lemma process_found_cases:
  assumes "uuid_parse env (msg_bill_id message_data) = Inr bill_id"
    and "uuid_parse env (msg_company_id message_data) = Inr cid"
    and "get_bill env rows bill_id cid = Inr (Some bill0)"
  shows "(\<exists>image_data info.
            process_bill_message env message_data rows
              = (None, persist (terminal_bill env message_data image_data info bill0) rows))
       \<or> (\<exists>e. process_bill_message env message_data rows = (Some e, rows))
       \<or> (\<exists>e. process_bill_message env message_data rows
                 = (Some e, persist (processing_bill bill0) rows))
       \<or> (\<exists>e bill. bid bill = bid bill0
              \<and> process_bill_message env message_data rows
                 = (Some e, persist (bill\<lparr>status := ''failed'', error_message := Some (str e)\<rparr>) rows))"
proof (cases "pipeline env message_data cid bill0 rows")
  case (Inr rows')
  with pipeline_returns[OF Inr] process_found[OF assms] show ?thesis by auto
next
  case (Inl x)
  obtain e bill rows' where x: "x = (e, bill, rows')" by (cases x) auto
  note st = pipeline_raises_state[OF Inl[unfolded x]]
  have run: "process_bill_message env message_data rows = mark_failed env e bill rows'"
    using process_found[OF assms] Inl x by simp
  show ?thesis
  proof (cases "commit_failed env")
    case None
    let ?failed = "bill\<lparr>status := ''failed'', error_message := Some (str e)\<rparr>"
    have "persist ?failed rows' = persist ?failed rows"
      using st by (auto simp: persist_persist)
    with run None st(1) show ?thesis by (auto simp: mark_failed_def)
  next
    case (Some e')
    with run st(2) show ?thesis by (auto simp: mark_failed_def)
  qed
qed

lemma extract_from_image_fallback:
  "extract_from_image_try env image_data mime_type = Inl e \<Longrightarrow>
   extract_from_image env image_data mime_type = extraction_failed"
  by (simp add: extract_from_image_def)

text \<open>
  The status a record has before a run does not reach the run's result, unless both the
  first commit and the handler's commit raise.
\<close>

lemma get_bill_with_status:
  assumes "get_bill env rows bill_id cid = Inr (Some bill0)"
  shows "get_bill env (with_status s bill_id rows) bill_id cid = Inr (Some (bill0\<lparr>status := s\<rparr>))"
proof -
  have l: "lookup_raises env = None" using get_bill_found(1)[OF assms] .
  let ?P = "\<lambda>b. bid b = bill_id \<and> company_id b = cid"
  let ?f = "\<lambda>r. if bid r = bill_id then r\<lparr>status := s\<rparr> else r"
  from assms l have f: "filter ?P rows = [bill0]"
    by (simp add: get_bill_def scalar_one_or_none_Some)
  have "filter ?P (map ?f rows) = map ?f (filter ?P rows)"
    by (induction rows) auto
  with f have "filter ?P (with_status s bill_id rows) = [?f bill0]"
    by (simp add: with_status_def)
  moreover have "bid bill0 = bill_id" using get_bill_found(3)[OF assms] .
  ultimately show ?thesis using l by (simp add: get_bill_def scalar_one_or_none_def)
qed

lemma persist_with_status:
  "bid obj = i \<Longrightarrow> persist obj (with_status s i rows) = persist obj rows"
  by (simp add: persist_def with_status_def)

lemma processing_bill_status [simp]:
  "processing_bill (b\<lparr>status := s\<rparr>) = processing_bill b"
  by (simp add: processing_bill_def)

lemma terminal_bill_status_update [simp]:
  "terminal_bill env m i info (b\<lparr>status := s\<rparr>) = terminal_bill env m i info b"
  by (simp add: terminal_bill_def)

lemma process_with_status:
  assumes "uuid_parse env (msg_bill_id message_data) = Inr bill_id"
    and "uuid_parse env (msg_company_id message_data) = Inr cid"
    and "get_bill env rows bill_id cid = Inr (Some bill0)"
    and "commit_processing env = None \<or> commit_failed env = None"
  shows "process_bill_message env message_data (with_status s bill_id rows)
         = process_bill_message env message_data rows"
proof -
  have b0: "bid bill0 = bill_id" using get_bill_found(3)[OF assms(3)] .
  have p: "persist (processing_bill bill0) (with_status s bill_id rows)
           = persist (processing_bill bill0) rows"
    using b0 by (simp add: persist_with_status)
  have left: "process_bill_message env message_data (with_status s bill_id rows) =
     (case pipeline env message_data cid (bill0\<lparr>status := s\<rparr>) (with_status s bill_id rows) of
        Inr rows' \<Rightarrow> (None, rows')
      | Inl (e, bill, rows') \<Rightarrow> mark_failed env e bill rows')"
    using assms(1,2) get_bill_with_status[OF assms(3)] by (rule process_found)
  have right: "process_bill_message env message_data rows =
     (case pipeline env message_data cid bill0 rows of
        Inr rows' \<Rightarrow> (None, rows')
      | Inl (e, bill, rows') \<Rightarrow> mark_failed env e bill rows')"
    using assms(1-3) by (rule process_found)
  show ?thesis
  proof (cases "commit_processing env")
    case None
    have "pipeline env message_data cid (bill0\<lparr>status := s\<rparr>) (with_status s bill_id rows)
               = pipeline env message_data cid bill0 rows"
      unfolding pipeline_unfold processing_bill_status terminal_bill_status_update p
      using None by simp
    with left right show ?thesis by simp
  next
    case (Some e)
    with assms(4) have cf: "commit_failed env = None" by simp
    have "pipeline env message_data cid (bill0\<lparr>status := s\<rparr>) (with_status s bill_id rows)
          = Inl (e, processing_bill bill0, with_status s bill_id rows)"
      unfolding pipeline_unfold using Some by simp
    moreover have "pipeline env message_data cid bill0 rows = Inl (e, processing_bill bill0, rows)"
      unfolding pipeline_unfold using Some by simp
    ultimately show ?thesis
      using left right cf b0 by (simp add: mark_failed_def persist_with_status)
  qed
qed




section \<open>Runs on the concrete inputs\<close>

lemmas example_defs =
  env_ok_def uuid_table_def job_def job_json_def payload_table_def shopco_def
  completed_bill_def pending_bill_def

lemmas run_defs =
  process_bill_message_def session_body_def get_bill_def scalar_one_or_none_def pipeline_unfold
  mark_failed_def persist_def processing_bill_def terminal_bill_def job_extraction_def
  job_embedding_def download_from_gcs_def extract_from_image_def extract_from_image_try_def
  generate_embedding_def check_duplicate_def nearest_query_def is_candidate_def distance_row_def
  duplicate_threshold_def not_duplicate_def mark_duplicate_def save_extracted_def parse_date_def
  cosine_distance_def dot_def

text \<open>
  The payload of a job for bill 1 under company 200 decodes to that job.
\<close>

lemma decode_job_1_200:
  "decode_message env_ok ''job: bill 1 of company 200''
   = Inr (job ''00000000-0000-0000-0000-000000000001'' ''00000000-0000-0000-0000-0000000000c8'')"
  by (simp add: decode_message_def BillUploadMessage_def str_field_def example_defs)

text \<open>
  Scenario A, second upload: company 100 has a completed record with the fingerprint
  \<open>[1, 0]\<close>, and bill 2 gets the same embedding.
\<close>

lemma scenario_a_second_upload:
  "process_bill_message env_ok job_2 [completed_bill 1 100 [1, 0], pending_bill 2 100]
   = (None, [completed_bill 1 100 [1, 0], duplicate_of_bill_1])"
  by (simp add: run_defs job_2_def duplicate_of_bill_1_def example_defs)




text \<open>
  Two uploads of company 100 while the extraction service times out; the embedding
  service answers the same text with the same vector.
\<close>

lemma timeout_first_upload:
  "process_bill_message env_extraction_timeout job_1 [pending_bill 1 100, pending_bill 2 100]
   = (None, [fallback_bill 1, pending_bill 2 100])"
  by (simp add: run_defs job_1_def fallback_bill_def env_extraction_timeout_def
        extraction_failed_def example_defs)

lemma timeout_second_upload:
  "process_bill_message env_extraction_timeout job_2 [fallback_bill 1, pending_bill 2 100]
   = (None, [fallback_bill 1, duplicate_of_bill_1])"
  by (simp add: run_defs job_2_def fallback_bill_def duplicate_of_bill_1_def
        env_extraction_timeout_def extraction_failed_def example_defs)

section \<open>The claims\<close>





text \<open>
  C3, amended (redelivery). \<^verbatim>\<open>process_bill_message\<close> has no check of the status: a job
  whose record is found under its tenant is run again whatever status the record has
  reached. Unless both the first commit and the handler's commit raise, the exception
  raised and the table left behind are the same for a record in any status, terminal or
  not, as for the same record still pending.
\<close>

theorem redelivery_ignores_status:
  assumes "uuid_parse env (msg_bill_id message_data) = Inr bill_id"
    and "uuid_parse env (msg_company_id message_data) = Inr cid"
    and "get_bill env rows bill_id cid = Inr (Some bill0)"
    and "commit_processing env = None \<or> commit_failed env = None"
  shows "process_bill_message env message_data (with_status s bill_id rows)
         = process_bill_message env message_data (with_status ''pending'' bill_id rows)"
  using process_with_status[OF assms, of s] process_with_status[OF assms, of "''pending''"]
  by simp

text \<open>
  Bill 1, completed with a fingerprint, while every call succeeds: delivered for the
  completed record, the job gives the result it gives for the same record in pending.
\<close>

theorem redelivery_ignores_status_witness:
  "get_bill env_ok [completed_bill 1 100 [1, 0]] 1 100 = Inr (Some (completed_bill 1 100 [1, 0]))
   \<and> commit_processing env_ok = None
   \<and> with_status ''completed'' 1 [completed_bill 1 100 [1, 0]] = [completed_bill 1 100 [1, 0]]
   \<and> with_status ''pending'' 1 [completed_bill 1 100 [1, 0]]
     = [(completed_bill 1 100 [1, 0])\<lparr>status := ''pending''\<rparr>]
   \<and> process_bill_message env_ok job_1 [completed_bill 1 100 [1, 0]]
     = process_bill_message env_ok job_1 [(completed_bill 1 100 [1, 0])\<lparr>status := ''pending''\<rparr>]"
proof -
  have 1: "uuid_parse env_ok (msg_bill_id job_1) = Inr 1"
    by (simp add: job_1_def example_defs)
  have 2: "uuid_parse env_ok (msg_company_id job_1) = Inr 100"
    by (simp add: job_1_def example_defs)
  have 3: "get_bill env_ok [completed_bill 1 100 [1, 0]] 1 100
           = Inr (Some (completed_bill 1 100 [1, 0]))"
    by (simp add: get_bill_def scalar_one_or_none_def example_defs)
  have 4: "commit_processing env_ok = None"
    by (simp add: example_defs)
  have 5: "with_status ''completed'' 1 [completed_bill 1 100 [1, 0]]
           = [completed_bill 1 100 [1, 0]]"
    by (simp add: with_status_def completed_bill_def)
  have 6: "with_status ''pending'' 1 [completed_bill 1 100 [1, 0]]
           = [(completed_bill 1 100 [1, 0])\<lparr>status := ''pending''\<rparr>]"
    by (simp add: with_status_def completed_bill_def)
  from redelivery_ignores_status[OF 1 2 3 disjI1[OF 4], of "''completed''"] 3 4 5 6
  show ?thesis by simp
qed

text \<open>
  The claim as stated fails: bill 1 is completed, its blob has since been removed, and
  its job is delivered again. The record is set to failed, with the error of the
  download.
\<close>

theorem redelivery_of_completed_counterexample:
  "status (completed_bill 1 100 [1, 0]) = ''completed''
   \<and> process_bill_message env_blob_missing job_1 [completed_bill 1 100 [1, 0]]
     = (Some (Exn ''NotFound'' ''404 No such object: bills/x.jpg''),
        [(completed_bill 1 100 [1, 0])\<lparr>status := ''failed'',
            error_message := Some ''404 No such object: bills/x.jpg''\<rparr>])
   \<and> snd (process_bill_message env_blob_missing job_1 [completed_bill 1 100 [1, 0]])
     \<noteq> [completed_bill 1 100 [1, 0]]"
  by (simp add: run_defs env_blob_missing_def job_1_def example_defs)




text \<open>
  C5, amended (extraction fallback). When the \<^verbatim>\<open>try\<close> block of
  \<^verbatim>\<open>extract_from_image\<close> fails in any way, the function returns the fallback record:
  vendor name \<^verbatim>\<open>Extraction Failed\<close>, total 0, confidence 0, no line items. The run goes
  on with that record: when the download, the search and the commits succeed, it returns
  without an exception, and the stored record is completed with the fallback data when
  the search finds no duplicate, and marked duplicate when it finds one.
\<close>

theorem extraction_failure_falls_back:
  assumes "uuid_parse env (msg_bill_id message_data) = Inr bill_id"
    and "uuid_parse env (msg_company_id message_data) = Inr cid"
    and "get_bill env rows bill_id cid = Inr (Some bill0)"
    and "commit_processing env = None"
    and "download_from_gcs env (msg_storage_path message_data) = Inr image_data"
    and "extract_from_image_try env image_data (msg_mime_type message_data) = Inl e"
    and "search_raises env = None"
    and "commit_terminal env = None"
  shows "extract_from_image env image_data (msg_mime_type message_data) = extraction_failed
     \<and> x_vendor_name extraction_failed = ''Extraction Failed''
     \<and> x_total_amount extraction_failed = 0
     \<and> x_confidence_score extraction_failed = 0
     \<and> x_line_items extraction_failed = []
     \<and> (\<exists>info rows' bill'.
           check_duplicate (cosine_dist env) None (persist (bill0\<lparr>status := ''processing''\<rparr>) rows)
             cid (generate_embedding env (generate_text_for_embedding env extraction_failed))
             = Inr info
           \<and> process_bill_message env message_data rows = (None, rows')
           \<and> bill' \<in> set rows' \<and> bid bill' = bill_id
           \<and> (if dup_is_duplicate info then status bill' = ''duplicate''
              else status bill' = ''completed''
                   \<and> vendor_name bill' = Some ''Extraction Failed''
                   \<and> total_amount bill' = Some 0
                   \<and> line_items bill' = Some []
                   \<and> raw_extraction bill' = Some extraction_failed))"
proof -
  have fb: "extract_from_image env image_data (msg_mime_type message_data) = extraction_failed"
    using assms(6) by (rule extract_from_image_fallback)
  then have x: "job_extraction env message_data image_data = extraction_failed"
    by (simp add: job_extraction_def)
  then have emb: "job_embedding env message_data image_data
      = generate_embedding env (generate_text_for_embedding env extraction_failed)"
    by (simp add: job_embedding_def)
  obtain info where info:
    "check_duplicate (cosine_dist env) None (persist (processing_bill bill0) rows) cid
       (generate_embedding env (generate_text_for_embedding env extraction_failed)) = Inr info"
    using check_duplicate_total by blast
  let ?t = "terminal_bill env message_data image_data info bill0"
  have "pipeline env message_data cid bill0 rows = Inr (persist ?t (persist (processing_bill bill0) rows))"
    unfolding pipeline_unfold using assms(4,5,7,8) info emb by simp
  then have run: "process_bill_message env message_data rows = (None, persist ?t rows)"
    using process_found[OF assms(1-3)] by (simp add: persist_persist)
  have b0: "bill0 \<in> set rows" "bid bill0 = bill_id"
    using get_bill_found[OF assms(3)] by simp_all
  then have mem: "?t \<in> set (persist ?t rows)" by (auto intro: persist_present)
  have fields: "\<not> dup_is_duplicate info \<Longrightarrow>
      vendor_name ?t = Some ''Extraction Failed'' \<and> total_amount ?t = Some 0
      \<and> line_items ?t = Some [] \<and> raw_extraction ?t = Some extraction_failed"
    by (simp add: terminal_bill_def save_extracted_def Let_def x)
       (simp add: extraction_failed_def)
  have "if dup_is_duplicate info then status ?t = ''duplicate''
        else status ?t = ''completed''
             \<and> vendor_name ?t = Some ''Extraction Failed''
             \<and> total_amount ?t = Some 0
             \<and> line_items ?t = Some []
             \<and> raw_extraction ?t = Some extraction_failed"
    using fields by (simp add: terminal_bill_status)
  with info run mem b0 have "\<exists>info rows' bill'.
           check_duplicate (cosine_dist env) None (persist (bill0\<lparr>status := ''processing''\<rparr>) rows)
             cid (generate_embedding env (generate_text_for_embedding env extraction_failed))
             = Inr info
           \<and> process_bill_message env message_data rows = (None, rows')
           \<and> bill' \<in> set rows' \<and> bid bill' = bill_id
           \<and> (if dup_is_duplicate info then status bill' = ''duplicate''
              else status bill' = ''completed''
                   \<and> vendor_name bill' = Some ''Extraction Failed''
                   \<and> total_amount bill' = Some 0
                   \<and> line_items bill' = Some []
                   \<and> raw_extraction bill' = Some extraction_failed)"
    unfolding processing_bill_def
    by (intro exI[of _ info] exI[of _ "persist ?t rows"] exI[of _ ?t]) simp
  with fb show ?thesis by (simp add: extraction_failed_def)
qed

text \<open>
  Scenario C: the extraction service times out for the first upload of company 100; the
  record is completed with the fallback data.
\<close>

theorem extraction_failure_falls_back_witness:
  "get_bill env_extraction_timeout [pending_bill 1 100, pending_bill 2 100] 1 100
     = Inr (Some (pending_bill 1 100))
   \<and> commit_processing env_extraction_timeout = None
   \<and> download_from_gcs env_extraction_timeout (msg_storage_path job_1) = Inr ''image bytes''
   \<and> extract_from_image_try env_extraction_timeout ''image bytes'' (msg_mime_type job_1)
     = Inl (Exn ''DeadlineExceeded'' ''504 Deadline Exceeded'')
   \<and> search_raises env_extraction_timeout = None
   \<and> commit_terminal env_extraction_timeout = None
   \<and> extract_from_image env_extraction_timeout ''image bytes'' (msg_mime_type job_1)
     = extraction_failed
   \<and> process_bill_message env_extraction_timeout job_1 [pending_bill 1 100, pending_bill 2 100]
     = (None, [fallback_bill 1, pending_bill 2 100])
   \<and> status (fallback_bill 1) = ''completed''
   \<and> vendor_name (fallback_bill 1) = Some ''Extraction Failed''"
proof -
  have 1: "uuid_parse env_extraction_timeout (msg_bill_id job_1) = Inr 1"
    by (simp add: env_extraction_timeout_def job_1_def example_defs)
  have 2: "uuid_parse env_extraction_timeout (msg_company_id job_1) = Inr 100"
    by (simp add: env_extraction_timeout_def job_1_def example_defs)
  have 3: "get_bill env_extraction_timeout [pending_bill 1 100, pending_bill 2 100] 1 100
           = Inr (Some (pending_bill 1 100))"
    by (simp add: get_bill_def scalar_one_or_none_def env_extraction_timeout_def example_defs)
  have 4: "commit_processing env_extraction_timeout = None"
    by (simp add: env_extraction_timeout_def example_defs)
  have 5: "download_from_gcs env_extraction_timeout (msg_storage_path job_1) = Inr ''image bytes''"
    by (simp add: download_from_gcs_def env_extraction_timeout_def example_defs)
  have 6: "extract_from_image_try env_extraction_timeout ''image bytes'' (msg_mime_type job_1)
           = Inl (Exn ''DeadlineExceeded'' ''504 Deadline Exceeded'')"
    by (simp add: extract_from_image_try_def env_extraction_timeout_def)
  have 7: "search_raises env_extraction_timeout = None"
    by (simp add: env_extraction_timeout_def example_defs)
  have 8: "commit_terminal env_extraction_timeout = None"
    by (simp add: env_extraction_timeout_def example_defs)
  have 9: "status (fallback_bill 1) = ''completed''
           \<and> vendor_name (fallback_bill 1) = Some ''Extraction Failed''"
    by (simp add: fallback_bill_def)
  from extraction_failure_falls_back[OF 1 2 3 4 5 6 7 8]
  have "extract_from_image env_extraction_timeout ''image bytes'' (msg_mime_type job_1)
        = extraction_failed" by blast
  with 3 4 5 6 7 8 9 timeout_first_upload show ?thesis by simp
qed

text \<open>
  The claim as stated fails: the extraction service times out for two uploads of one
  company. The first record is completed with the fallback record; the second gets the
  same embedding, is marked a duplicate of the first, and stores none of the fallback
  record.
\<close>

theorem extraction_failure_completed_counterexample:
  "extract_from_image_try env_extraction_timeout ''image bytes'' (msg_mime_type job_2)
     = Inl (Exn ''DeadlineExceeded'' ''504 Deadline Exceeded'')
   \<and> status (snd (process_bill_message env_extraction_timeout job_2
        (snd (process_bill_message env_extraction_timeout job_1
           [pending_bill 1 100, pending_bill 2 100]))) ! 1) = ''duplicate''
   \<and> vendor_name (snd (process_bill_message env_extraction_timeout job_2
        (snd (process_bill_message env_extraction_timeout job_1
           [pending_bill 1 100, pending_bill 2 100]))) ! 1) = None"
  unfolding timeout_first_upload snd_conv timeout_second_upload
  by (simp add: extract_from_image_try_def env_extraction_timeout_def duplicate_of_bill_1_def
        pending_bill_def)

text \<open>
  C6 (the zero vector). Let the distance follow that convention. When the embedding call
  fails, \<^verbatim>\<open>generate_embedding\<close> returns 768 zeros, and the search with that vector
  returns. If it reports a duplicate at all, the candidate it matched has the zero vector
  as its fingerprint; with \<open>bid\<close> a primary key, it never reports a candidate whose
  fingerprint is not the zero vector.
\<close>

theorem zero_vector_never_duplicate_of_nonzero:
  assumes convention: "zero_vector_convention cd"
    and embed_fails: "embed_content env contents = Inl e \<or> embed_content env contents = Inr []"
  shows "generate_embedding env contents = replicate 768 0
    \<and> (\<exists>r. check_duplicate cd None rows T (generate_embedding env contents) = Inr r
         \<and> (dup_is_duplicate r \<longrightarrow>
               (\<exists>b \<in> set rows. is_candidate T b
                   \<and> visual_fingerprint b = Some (replicate 768 0)
                   \<and> dup_duplicate_id r = Some (bid b)))
         \<and> (distinct (map bid rows) \<longrightarrow>
               (\<forall>b \<in> set rows.
                   is_candidate T b \<and> visual_fingerprint b \<noteq> Some (replicate 768 0)
                   \<longrightarrow> \<not> (dup_is_duplicate r \<and> dup_duplicate_id r = Some (bid b)))))"
proof -
  let ?z = "replicate 768 (0::real)"
  have z: "generate_embedding env contents = ?z"
    using embed_fails by (auto simp: generate_embedding_def)
  obtain r where r: "check_duplicate cd None rows T ?z = Inr r"
    using check_duplicate_total by blast
  have matched: "\<exists>c \<in> set rows. is_candidate T c \<and> visual_fingerprint c = Some ?z
                   \<and> dup_duplicate_id r = Some (bid c)"
    if dup: "dup_is_duplicate r"
  proof -
    from dup r check_duplicate_cases[of cd rows T ?z]
    obtain c where c: "c \<in> set rows" "is_candidate T c" "dup_duplicate_id r = Some (bid c)"
        "1 - cd (the (visual_fingerprint c)) ?z \<ge> duplicate_threshold"
      by (auto simp: not_duplicate_def)
    from c(2) obtain fp where fp: "visual_fingerprint c = Some fp"
      by (auto simp: is_candidate_def)
    have "fp = ?z"
    proof (rule ccontr)
      assume "fp \<noteq> ?z"
      with convention have "cd fp ?z = 1" by (simp add: zero_vector_convention_def)
      with c(4) fp show False by (simp add: duplicate_threshold_def)
    qed
    with c fp show ?thesis by auto
  qed
  have nonzero: "\<not> (dup_is_duplicate r \<and> dup_duplicate_id r = Some (bid b))"
    if pk: "distinct (map bid rows)"
      and b: "b \<in> set rows" "is_candidate T b" "visual_fingerprint b \<noteq> Some ?z" for b
  proof
    assume dup: "dup_is_duplicate r \<and> dup_duplicate_id r = Some (bid b)"
    with matched obtain c where c: "c \<in> set rows" "visual_fingerprint c = Some ?z"
        "bid c = bid b"
      by auto
    from pk c b have "c = b" by (auto intro: distinct_bid_eq)
    with c b show False by simp
  qed
  from r z matched nonzero show ?thesis by auto
qed

text \<open>
  The embedding service is down and the tenant has a completed record with the
  fingerprint \<open>(1, 0, \<dots>, 0)\<close> of 768 entries: the search with the zero vector reports
  no duplicate.
\<close>

theorem zero_vector_never_duplicate_of_nonzero_witness:
  "zero_vector_convention cosine_distance
   \<and> distinct (map bid [completed_bill 10 1 (1 # replicate 767 0)])
   \<and> embed_content env_embedding_down ''Vendor: ShopCo'' = Inl (Exn ''ServerError'' ''503 embedding service unavailable'')
   \<and> generate_embedding env_embedding_down ''Vendor: ShopCo'' = replicate 768 0
   \<and> is_candidate 1 (completed_bill 10 1 (1 # replicate 767 0))
   \<and> visual_fingerprint (completed_bill 10 1 (1 # replicate 767 0)) \<noteq> Some (replicate 768 0)
   \<and> check_duplicate cosine_distance None [completed_bill 10 1 (1 # replicate 767 0)] 1
        (generate_embedding env_embedding_down ''Vendor: ShopCo'') = Inr not_duplicate"
proof -
  have conv: "zero_vector_convention cosine_distance"
    by (simp add: zero_vector_convention_def cosine_distance_zero)
  have pk: "distinct (map bid [completed_bill 10 1 (1 # replicate 767 0)])" by simp
  have emb: "embed_content env_embedding_down ''Vendor: ShopCo''
             = Inl (Exn ''ServerError'' ''503 embedding service unavailable'')"
    by (simp add: env_embedding_down_def)
  have nz: "visual_fingerprint (completed_bill 10 1 (1 # replicate 767 0)) \<noteq> Some (replicate 768 0)"
    by (auto simp: completed_bill_def dest: arg_cong[where f = hd])
  have cand: "is_candidate 1 (completed_bill 10 1 (1 # replicate 767 0))"
    by (simp add: is_candidate_def completed_bill_def)
  have run: "check_duplicate cosine_distance None [completed_bill 10 1 (1 # replicate 767 0)] 1 (replicate 768 0)
             = Inr not_duplicate"
    by (simp add: check_duplicate_def nearest_query_def cand distance_row_def
          cosine_distance_zero duplicate_threshold_def)
  from zero_vector_never_duplicate_of_nonzero
         [where cd = cosine_distance and rows = "[completed_bill 10 1 (1 # replicate 767 0)]"
            and env = env_embedding_down and contents = "''Vendor: ShopCo''" and T = 1,
          OF conv disjI1[OF emb]]
  have z: "generate_embedding env_embedding_down ''Vendor: ShopCo'' = replicate 768 0" by blast
  from conv pk emb z cand nz run show ?thesis by simp
qed




text \<open>
  C8 (missing record). When the message decodes, its identifiers parse, the lookup does
  not raise and no row has the job's id under the job's company, then
  \<^verbatim>\<open>process_bill_message\<close> returns without an exception and with the table unchanged,
  and \<^verbatim>\<open>message_callback\<close> acknowledges the message.
\<close>

theorem missing_record_is_dropped:
  assumes "decode_message env payload = Inr message_data"
    and "uuid_parse env (msg_bill_id message_data) = Inr bill_id"
    and "uuid_parse env (msg_company_id message_data) = Inr cid"
    and "lookup_raises env = None"
    and "\<not> (\<exists>b \<in> set rows. bid b = bill_id \<and> company_id b = cid)"
  shows "process_bill_message env message_data rows = (None, rows)
         \<and> message_callback env payload rows = (Ack, rows)"
proof -
  from assms(4,5) have "get_bill env rows bill_id cid = Inr None"
    by (rule get_bill_missing)
  with assms(2,3) have "process_bill_message env message_data rows = (None, rows)"
    by (simp add: process_bill_message_def session_body_def)
  with assms(1) show ?thesis by (simp add: message_callback_def)
qed

text \<open>
  Scenario D: bill 1 exists under company 100 only, and the job names company 200.
\<close>

theorem missing_record_is_dropped_witness:
  "decode_message env_ok ''job: bill 1 of company 200''
     = Inr (job ''00000000-0000-0000-0000-000000000001'' ''00000000-0000-0000-0000-0000000000c8'')
   \<and> uuid_parse env_ok ''00000000-0000-0000-0000-000000000001'' = Inr 1
   \<and> uuid_parse env_ok ''00000000-0000-0000-0000-0000000000c8'' = Inr 200
   \<and> lookup_raises env_ok = None
   \<and> get_bill env_ok [pending_bill 1 100, pending_bill 2 200] 1 200 = Inr None
   \<and> message_callback env_ok ''job: bill 1 of company 200'' [pending_bill 1 100, pending_bill 2 200]
     = (Ack, [pending_bill 1 100, pending_bill 2 200])"
proof -
  have 1: "uuid_parse env_ok (msg_bill_id (job ''00000000-0000-0000-0000-000000000001'' ''00000000-0000-0000-0000-0000000000c8'')) = Inr 1"
    by (simp add: example_defs)
  have 2: "uuid_parse env_ok (msg_company_id (job ''00000000-0000-0000-0000-000000000001'' ''00000000-0000-0000-0000-0000000000c8'')) = Inr 200"
    by (simp add: example_defs)
  have 3: "lookup_raises env_ok = None" by (simp add: example_defs)
  have 4: "\<not> (\<exists>b \<in> set [pending_bill 1 100, pending_bill 2 200]. bid b = 1 \<and> company_id b = 200)"
    by (simp add: example_defs)
  have 5: "get_bill env_ok [pending_bill 1 100, pending_bill 2 200] 1 200 = Inr None"
    using 3 4 by (rule get_bill_missing)
  from missing_record_is_dropped[OF decode_job_1_200 1 2 3 4] 1 2 3 5 decode_job_1_200
  show ?thesis by (simp add: job_def)
qed




text \<open>
  C10 (frame of the duplicate outcome). When a run returns without an exception and
  leaves the job's record with the status duplicate, the stored record is the record from
  before the run with the status, the duplicate flag, the duplicate-of reference, the
  similarity score and the processing time written, and nothing else: vendor name, tax
  number, bill number, bill date, total amount, currency, line items, raw extraction and
  fingerprint are unchanged.
\<close>

theorem duplicate_outcome_frame:
  assumes "uuid_parse env (msg_bill_id message_data) = Inr bill_id"
    and "uuid_parse env (msg_company_id message_data) = Inr cid"
    and "get_bill env rows bill_id cid = Inr (Some bill0)"
    and "process_bill_message env message_data rows = (None, rows')"
    and "get_bill env rows' bill_id cid = Inr (Some bill')"
    and "status bill' = ''duplicate''"
  shows "bill' = bill0\<lparr>status := ''duplicate'', is_duplicate := Some True,
                       duplicate_of_id := duplicate_of_id bill',
                       similarity_score := similarity_score bill',
                       processed_at := Some (utcnow env)\<rparr>
     \<and> vendor_name bill' = vendor_name bill0
     \<and> vendor_tax_number bill' = vendor_tax_number bill0
     \<and> bill_number bill' = bill_number bill0
     \<and> bill_date bill' = bill_date bill0
     \<and> total_amount bill' = total_amount bill0
     \<and> currency bill' = currency bill0
     \<and> line_items bill' = line_items bill0
     \<and> raw_extraction bill' = raw_extraction bill0
     \<and> visual_fingerprint bill' = visual_fingerprint bill0"
proof -
  have b0: "bid bill0 = bill_id" using get_bill_found[OF assms(3)] by simp
  from process_found_cases[OF assms(1-3)] assms(4)
  obtain image_data info
    where "rows' = persist (terminal_bill env message_data image_data info bill0) rows"
    by auto
  with assms(5) b0 have "bill' = terminal_bill env message_data image_data info bill0"
    by (auto dest: get_bill_persist)
  with assms(6) terminal_bill_duplicate[of env message_data image_data info bill0]
  have eq: "bill' = bill0\<lparr>status := ''duplicate'', is_duplicate := Some True,
                 duplicate_of_id := dup_duplicate_id info,
                 similarity_score := Some (dup_similarity info),
                 processed_at := Some (utcnow env)\<rparr>"
    by simp
  have 1: "bill' = bill0\<lparr>status := ''duplicate'', is_duplicate := Some True,
                       duplicate_of_id := duplicate_of_id bill',
                       similarity_score := similarity_score bill',
                       processed_at := Some (utcnow env)\<rparr>"
    by (subst eq) (simp add: eq)
  show ?thesis
    apply (intro conjI)
    apply (rule 1)
    apply (simp_all add: eq)
    done
qed

text \<open>
  Scenario A, second upload: bill 2 is marked a duplicate of bill 1, and its extracted
  fields and fingerprint stay as they were.
\<close>

theorem duplicate_outcome_frame_witness:
  "get_bill env_ok [completed_bill 1 100 [1, 0], pending_bill 2 100] 2 100
     = Inr (Some (pending_bill 2 100))
   \<and> process_bill_message env_ok job_2 [completed_bill 1 100 [1, 0], pending_bill 2 100]
     = (None, [completed_bill 1 100 [1, 0], duplicate_of_bill_1])
   \<and> get_bill env_ok [completed_bill 1 100 [1, 0], duplicate_of_bill_1] 2 100
     = Inr (Some duplicate_of_bill_1)
   \<and> status duplicate_of_bill_1 = ''duplicate''
   \<and> vendor_name duplicate_of_bill_1 = vendor_name (pending_bill 2 100)
   \<and> visual_fingerprint duplicate_of_bill_1 = visual_fingerprint (pending_bill 2 100)"
proof -
  have 1: "uuid_parse env_ok (msg_bill_id job_2) = Inr 2"
    by (simp add: job_2_def example_defs)
  have 2: "uuid_parse env_ok (msg_company_id job_2) = Inr 100"
    by (simp add: job_2_def example_defs)
  have 3: "get_bill env_ok [completed_bill 1 100 [1, 0], pending_bill 2 100] 2 100
           = Inr (Some (pending_bill 2 100))"
    by (simp add: get_bill_def scalar_one_or_none_def example_defs)
  have 5: "get_bill env_ok [completed_bill 1 100 [1, 0], duplicate_of_bill_1] 2 100
           = Inr (Some duplicate_of_bill_1)"
    by (simp add: get_bill_def scalar_one_or_none_def duplicate_of_bill_1_def example_defs)
  have 6: "status duplicate_of_bill_1 = ''duplicate''"
    by (simp add: duplicate_of_bill_1_def)
  from duplicate_outcome_frame[OF 1 2 3 scenario_a_second_upload 5 6]
    3 5 6 scenario_a_second_upload
  show ?thesis by simp
qed

end
